theory Spec2Isabelle
  imports Complex_Main "HOL-Library.Word"
begin

section \<open>Basic types\<close>

text \<open>
  \<open>ObjectId\<close> is the 32-bit identifier of processors, parameters and properties.
  A \<open>float\<close> that is only stored and copied is kept as its 32-bit pattern; a C++
  \<open>int\<close> that is only stored and copied is kept as a mathematical integer.
\<close>

type_synonym ObjectId = "32 word"
type_synonym float32 = "32 word"
type_synonym byte = "8 word"

section \<open>library/processor_state.cpp\<close>

text \<open>
  The members of \<open>ProcessorState\<close>: \<open>_program\<close>, \<open>_bypassed\<close>,
  \<open>_parameter_changes\<close> and \<open>_property_changes\<close>.
\<close>

record ProcessorState =
  ps_program :: "int option"
  ps_bypassed :: "bool option"
  ps_parameter_changes :: "(ObjectId \<times> float32) list"
  ps_property_changes :: "(ObjectId \<times> string) list"

text \<open>A default constructed state: nothing set, both sequences empty.\<close>

definition ProcessorState_new :: ProcessorState where
  "ProcessorState_new =
     \<lparr>ps_program = None, ps_bypassed = None,
      ps_parameter_changes = [], ps_property_changes = []\<rparr>"

text \<open>\<open>serialize\<close> returns a default constructed byte vector, whatever the state holds.\<close>

definition serialize :: "ProcessorState \<Rightarrow> byte list" where
  "serialize st = []"

text \<open>
  \<open>deserialize\<close> ignores its argument and returns \<open>false\<close>; the state is left as it
  was. The result is the returned flag and the state after the call.
\<close>

definition deserialize :: "ProcessorState \<Rightarrow> byte list \<Rightarrow> bool \<times> ProcessorState" where
  "deserialize st bytes = (False, st)"

definition set_program :: "int \<Rightarrow> ProcessorState \<Rightarrow> ProcessorState" where
  "set_program program_id st = st\<lparr>ps_program := Some program_id\<rparr>"

definition set_bypass :: "bool \<Rightarrow> ProcessorState \<Rightarrow> ProcessorState" where
  "set_bypass enabled st = st\<lparr>ps_bypassed := Some enabled\<rparr>"

definition add_parameter_change :: "ObjectId \<Rightarrow> float32 \<Rightarrow> ProcessorState \<Rightarrow> ProcessorState" where
  "add_parameter_change parameter_id v st =
     st\<lparr>ps_parameter_changes := ps_parameter_changes st @ [(parameter_id, v)]\<rparr>"

definition add_property_change :: "ObjectId \<Rightarrow> string \<Rightarrow> ProcessorState \<Rightarrow> ProcessorState" where
  "add_property_change property_id v st =
     st\<lparr>ps_property_changes := ps_property_changes st @ [(property_id, v)]\<rparr>"

definition program :: "ProcessorState \<Rightarrow> int option" where
  "program st = ps_program st"

text \<open>
  \<open>bypassed()\<close> is declared to return \<open>std::optional<int>\<close> and returns the
  \<open>std::optional<bool>\<close> member: a set flag is converted to 1 or 0.
\<close>

definition bypassed :: "ProcessorState \<Rightarrow> int option" where
  "bypassed st = map_option (\<lambda>b. if b then 1 else 0) (ps_bypassed st)"

definition parameters :: "ProcessorState \<Rightarrow> (ObjectId \<times> float32) list" where
  "parameters st = ps_parameter_changes st"

definition properties :: "ProcessorState \<Rightarrow> (ObjectId \<times> string) list" where
  "properties st = ps_property_changes st"

text \<open>
  \<open>RtState\<close> has a bypass flag and parameter changes only. Its converting
  constructor assigns \<open>state.bypassed()\<close> (an optional int) to the optional bool
  member, which converts a non-zero value to \<open>true\<close>, and copies the parameters.
\<close>

record RtState =
  rt_bypassed :: "bool option"
  rt_parameter_changes :: "(ObjectId \<times> float32) list"

definition RtState_new :: RtState where
  "RtState_new = \<lparr>rt_bypassed = None, rt_parameter_changes = []\<rparr>"

definition RtState_from :: "ProcessorState \<Rightarrow> RtState" where
  "RtState_from st =
     \<lparr>rt_bypassed = map_option (\<lambda>i. i \<noteq> 0) (bypassed st),
      rt_parameter_changes = parameters st\<rparr>"

definition RtState_set_bypass :: "bool \<Rightarrow> RtState \<Rightarrow> RtState" where
  "RtState_set_bypass enabled rs = rs\<lparr>rt_bypassed := Some enabled\<rparr>"

definition RtState_add_parameter_change :: "ObjectId \<Rightarrow> float32 \<Rightarrow> RtState \<Rightarrow> RtState" where
  "RtState_add_parameter_change parameter_id v rs =
     rs\<lparr>rt_parameter_changes := rt_parameter_changes rs @ [(parameter_id, v)]\<rparr>"

definition RtState_bypassed :: "RtState \<Rightarrow> int option" where
  "RtState_bypassed rs = map_option (\<lambda>b. if b then 1 else 0) (rt_bypassed rs)"

definition RtState_parameters :: "RtState \<Rightarrow> (ObjectId \<times> float32) list" where
  "RtState_parameters rs = rt_parameter_changes rs"

text \<open>
  A bundle as a client builds it: program 3, bypass on, one parameter change and one
  property change.
\<close>

definition example_state :: ProcessorState where
  "example_state =
     add_property_change 7 ''preset''
       (add_parameter_change 5 0x3F000000
         (set_bypass True (set_program 3 ProcessorState_new)))"

section \<open>engine/controller/midi_controller.cpp\<close>

datatype MidiChannel =
    MIDI_CH_1 | MIDI_CH_2 | MIDI_CH_3 | MIDI_CH_4 | MIDI_CH_5 | MIDI_CH_6
  | MIDI_CH_7 | MIDI_CH_8 | MIDI_CH_9 | MIDI_CH_10 | MIDI_CH_11 | MIDI_CH_12
  | MIDI_CH_13 | MIDI_CH_14 | MIDI_CH_15 | MIDI_CH_16 | MIDI_CH_OMNI

fun int_from_midi_channel :: "MidiChannel \<Rightarrow> int" where
  "int_from_midi_channel MIDI_CH_1 = 0"
| "int_from_midi_channel MIDI_CH_2 = 1"
| "int_from_midi_channel MIDI_CH_3 = 2"
| "int_from_midi_channel MIDI_CH_4 = 3"
| "int_from_midi_channel MIDI_CH_5 = 4"
| "int_from_midi_channel MIDI_CH_6 = 5"
| "int_from_midi_channel MIDI_CH_7 = 6"
| "int_from_midi_channel MIDI_CH_8 = 7"
| "int_from_midi_channel MIDI_CH_9 = 8"
| "int_from_midi_channel MIDI_CH_10 = 9"
| "int_from_midi_channel MIDI_CH_11 = 10"
| "int_from_midi_channel MIDI_CH_12 = 11"
| "int_from_midi_channel MIDI_CH_13 = 12"
| "int_from_midi_channel MIDI_CH_14 = 13"
| "int_from_midi_channel MIDI_CH_15 = 14"
| "int_from_midi_channel MIDI_CH_16 = 15"
| "int_from_midi_channel MIDI_CH_OMNI = 16"

text \<open>The statuses involved. Of \<open>MidiDispatcherStatus\<close> the controller only tests
  equality with \<open>OK\<close>; every other value is kept as a numbered failure.\<close>

datatype ControlStatus =
  CS_OK | CS_ERROR | CS_UNSUPPORTED_OPERATION | CS_NOT_FOUND | CS_OUT_OF_RANGE | CS_INVALID_ARGUMENTS

datatype MidiDispatcherStatus = MD_OK | MD_FAILURE nat

datatype EventStatus = HANDLED_OK | ERROR

text \<open>
  The calls on \<open>_midi_dispatcher\<close> that the lambdas make, with their arguments in
  the order of the call.
\<close>

datatype MidiDispatcherCall =
    connect_kb_to_track int int int
  | connect_raw_midi_to_track int int int
  | connect_track_to_output int int int
  | connect_cc_to_parameter int int int int float32 float32 bool int
  | connect_pc_to_processor int int int
  | disconnect_kb_from_track int int int
  | disconnect_raw_midi_from_track int int int
  | disconnect_track_from_output int int int
  | disconnect_cc_from_parameter int int int int
  | disconnect_pc_from_processor int int int
  | disconnect_all_cc_from_processor int
  | disconnect_all_pc_from_processor int

text \<open>
  A \<open>LambdaEvent\<close> holds the closure and its process time. Each closure of the
  controller makes one dispatcher call with captured arguments, so it is kept as that
  call. Running it is left to the event dispatcher: the status of the call decides
  between \<open>HANDLED_OK\<close> and \<open>ERROR\<close>.
\<close>

datatype ProcessTime = IMMEDIATE_PROCESS

datatype LambdaEvent = LambdaEvent MidiDispatcherCall ProcessTime

fun run_lambda :: "(MidiDispatcherCall \<Rightarrow> MidiDispatcherStatus) \<Rightarrow> LambdaEvent \<Rightarrow> EventStatus" where
  "run_lambda midi_dispatcher (LambdaEvent c t) =
     (if midi_dispatcher c = MD_OK then HANDLED_OK else ERROR)"

text \<open>The controller's view of the event dispatcher: the events posted so far.\<close>

record MidiController =
  event_dispatcher :: "LambdaEvent list"

definition post_event :: "LambdaEvent \<Rightarrow> MidiController \<Rightarrow> MidiController" where
  "post_event event ctl = ctl\<lparr>event_dispatcher := event_dispatcher ctl @ [event]\<rparr>"

definition connect_kbd_input_to_track ::
  "int \<Rightarrow> MidiChannel \<Rightarrow> int \<Rightarrow> bool \<Rightarrow> MidiController \<Rightarrow> ControlStatus \<times> MidiController" where
  "connect_kbd_input_to_track track_id channel port raw_midi ctl =
     (let int_channel = int_from_midi_channel channel;
          lambda = (if \<not> raw_midi then connect_kb_to_track port track_id int_channel
                    else connect_raw_midi_to_track port track_id int_channel)
      in (CS_OK, post_event (LambdaEvent lambda IMMEDIATE_PROCESS) ctl))"

definition connect_kbd_output_from_track ::
  "int \<Rightarrow> MidiChannel \<Rightarrow> int \<Rightarrow> MidiController \<Rightarrow> ControlStatus \<times> MidiController" where
  "connect_kbd_output_from_track track_id channel port ctl =
     (let int_channel = int_from_midi_channel channel;
          lambda = connect_track_to_output port track_id int_channel
      in (CS_OK, post_event (LambdaEvent lambda IMMEDIATE_PROCESS) ctl))"

definition connect_cc_to_parameter_cmd ::
  "int \<Rightarrow> int \<Rightarrow> MidiChannel \<Rightarrow> int \<Rightarrow> int \<Rightarrow> float32 \<Rightarrow> float32 \<Rightarrow> bool \<Rightarrow> MidiController
     \<Rightarrow> ControlStatus \<times> MidiController" where
  "connect_cc_to_parameter_cmd processor_id parameter_id channel port cc_number min_range
       max_range relative_mode ctl =
     (let int_channel = int_from_midi_channel channel;
          lambda = connect_cc_to_parameter port processor_id parameter_id cc_number min_range
                     max_range relative_mode int_channel
      in (CS_OK, post_event (LambdaEvent lambda IMMEDIATE_PROCESS) ctl))"

definition connect_pc_to_processor_cmd ::
  "int \<Rightarrow> MidiChannel \<Rightarrow> int \<Rightarrow> MidiController \<Rightarrow> ControlStatus \<times> MidiController" where
  "connect_pc_to_processor_cmd processor_id channel port ctl =
     (let int_channel = int_from_midi_channel channel;
          lambda = connect_pc_to_processor port processor_id int_channel
      in (CS_OK, post_event (LambdaEvent lambda IMMEDIATE_PROCESS) ctl))"

definition disconnect_kbd_input ::
  "int \<Rightarrow> MidiChannel \<Rightarrow> int \<Rightarrow> bool \<Rightarrow> MidiController \<Rightarrow> ControlStatus \<times> MidiController" where
  "disconnect_kbd_input track_id channel port raw_midi ctl =
     (let int_channel = int_from_midi_channel channel;
          lambda = (if \<not> raw_midi then disconnect_kb_from_track port track_id int_channel
                    else disconnect_raw_midi_from_track port track_id int_channel)
      in (CS_OK, post_event (LambdaEvent lambda IMMEDIATE_PROCESS) ctl))"

definition disconnect_kbd_output ::
  "int \<Rightarrow> MidiChannel \<Rightarrow> int \<Rightarrow> MidiController \<Rightarrow> ControlStatus \<times> MidiController" where
  "disconnect_kbd_output track_id channel port ctl =
     (let int_channel = int_from_midi_channel channel;
          lambda = disconnect_track_from_output port track_id int_channel
      in (CS_OK, post_event (LambdaEvent lambda IMMEDIATE_PROCESS) ctl))"

definition disconnect_cc ::
  "int \<Rightarrow> MidiChannel \<Rightarrow> int \<Rightarrow> int \<Rightarrow> MidiController \<Rightarrow> ControlStatus \<times> MidiController" where
  "disconnect_cc processor_id channel port cc_number ctl =
     (let int_channel = int_from_midi_channel channel;
          lambda = disconnect_cc_from_parameter port processor_id cc_number int_channel
      in (CS_OK, post_event (LambdaEvent lambda IMMEDIATE_PROCESS) ctl))"

definition disconnect_pc ::
  "int \<Rightarrow> MidiChannel \<Rightarrow> int \<Rightarrow> MidiController \<Rightarrow> ControlStatus \<times> MidiController" where
  "disconnect_pc processor_id channel port ctl =
     (let int_channel = int_from_midi_channel channel;
          lambda = disconnect_pc_from_processor port processor_id int_channel
      in (CS_OK, post_event (LambdaEvent lambda IMMEDIATE_PROCESS) ctl))"

definition disconnect_all_cc_from_processor_cmd ::
  "int \<Rightarrow> MidiController \<Rightarrow> ControlStatus \<times> MidiController" where
  "disconnect_all_cc_from_processor_cmd processor_id ctl =
     (let lambda = disconnect_all_cc_from_processor processor_id
      in (CS_OK, post_event (LambdaEvent lambda IMMEDIATE_PROCESS) ctl))"

definition disconnect_all_pc_from_processor_cmd ::
  "int \<Rightarrow> MidiController \<Rightarrow> ControlStatus \<times> MidiController" where
  "disconnect_all_pc_from_processor_cmd processor_id ctl =
     (let lambda = disconnect_all_pc_from_processor processor_id
      in (CS_OK, post_event (LambdaEvent lambda IMMEDIATE_PROCESS) ctl))"

text \<open>The ten mutating commands as one request type, and the method each one calls.\<close>

datatype MidiCommand =
    ConnectKbdInputToTrack int MidiChannel int bool
  | ConnectKbdOutputFromTrack int MidiChannel int
  | ConnectCcToParameter int int MidiChannel int int float32 float32 bool
  | ConnectPcToProcessor int MidiChannel int
  | DisconnectKbdInput int MidiChannel int bool
  | DisconnectKbdOutput int MidiChannel int
  | DisconnectCc int MidiChannel int int
  | DisconnectPc int MidiChannel int
  | DisconnectAllCcFromProcessor int
  | DisconnectAllPcFromProcessor int

fun midi_command :: "MidiCommand \<Rightarrow> MidiController \<Rightarrow> ControlStatus \<times> MidiController" where
  "midi_command (ConnectKbdInputToTrack t c p r) = connect_kbd_input_to_track t c p r"
| "midi_command (ConnectKbdOutputFromTrack t c p) = connect_kbd_output_from_track t c p"
| "midi_command (ConnectCcToParameter pr pa c p cc mn mx rel) =
     connect_cc_to_parameter_cmd pr pa c p cc mn mx rel"
| "midi_command (ConnectPcToProcessor pr c p) = connect_pc_to_processor_cmd pr c p"
| "midi_command (DisconnectKbdInput t c p r) = disconnect_kbd_input t c p r"
| "midi_command (DisconnectKbdOutput t c p) = disconnect_kbd_output t c p"
| "midi_command (DisconnectCc pr c p cc) = disconnect_cc pr c p cc"
| "midi_command (DisconnectPc pr c p) = disconnect_pc pr c p"
| "midi_command (DisconnectAllCcFromProcessor pr) = disconnect_all_cc_from_processor_cmd pr"
| "midi_command (DisconnectAllPcFromProcessor pr) = disconnect_all_pc_from_processor_cmd pr"

lemmas midi_command_defs =
  connect_kbd_input_to_track_def connect_kbd_output_from_track_def
  connect_cc_to_parameter_cmd_def connect_pc_to_processor_cmd_def
  disconnect_kbd_input_def disconnect_kbd_output_def disconnect_cc_def disconnect_pc_def
  disconnect_all_cc_from_processor_cmd_def disconnect_all_pc_from_processor_cmd_def
  post_event_def

section \<open>audio_frontends/jack_frontend.cpp\<close>

text \<open>
  \<open>jack_nframes_t\<close> is an unsigned 32-bit count. What the frontend does to the
  engine is kept as the sequence of calls it makes: \<open>send_rt_event\<close> with the
  event, and \<open>process_chunk\<close> with the frame offset of the chunk copied into
  \<open>_in_buffer\<close> and out of \<open>_out_buffer\<close>; the samples themselves are not
  modelled. The event queue has one consumer, so that \<open>pop\<close> on a queue that is
  not empty gives a valid item.
\<close>

type_synonym jack_nframes_t = "32 word"

datatype 'e EngineCall = send_rt_event 'e | process_chunk jack_nframes_t

record 'e JackFrontend =
  jf_event_queue :: "'e list"
  jf_engine :: "'e EngineCall list"
  jf_log :: "string list"

function process_events :: "'e JackFrontend \<Rightarrow> 'e JackFrontend" where
  "process_events st =
     (if jf_event_queue st \<noteq> [] then
        process_events (st\<lparr>jf_event_queue := tl (jf_event_queue st),
                            jf_engine := jf_engine st @ [send_rt_event (hd (jf_event_queue st))]\<rparr>)
      else st)"
  by pat_completeness auto
termination
  by (relation "measure (\<lambda>st. length (jf_event_queue st))") auto

declare process_events.simps [simp del]

definition process_midi :: "'e JackFrontend \<Rightarrow> 'e JackFrontend" where
  "process_midi st = st"

text \<open>
  The chunk loop of \<open>process_audio\<close>. \<open>frames += AUDIO_CHUNK_SIZE\<close> is unsigned
  32-bit addition and wraps, so the loop is not total in general: \<open>None\<close> stands for
  a call that does not return. \<open>AUDIO_CHUNK_SIZE\<close> is declared outside this file and
  is an argument here.
\<close>

partial_function (option) process_audio_loop ::
  "jack_nframes_t \<Rightarrow> jack_nframes_t \<Rightarrow> jack_nframes_t \<Rightarrow> 'e JackFrontend
     \<Rightarrow> 'e JackFrontend option" where
  "process_audio_loop AUDIO_CHUNK_SIZE nframes frames st =
     (if frames < nframes then
        process_audio_loop AUDIO_CHUNK_SIZE nframes (frames + AUDIO_CHUNK_SIZE)
          (st\<lparr>jf_engine := jf_engine st @ [process_chunk frames]\<rparr>)
      else Some st)"

definition process_audio ::
  "jack_nframes_t \<Rightarrow> jack_nframes_t \<Rightarrow> 'e JackFrontend \<Rightarrow> 'e JackFrontend option" where
  "process_audio AUDIO_CHUNK_SIZE nframes st = process_audio_loop AUDIO_CHUNK_SIZE nframes 0 st"

text \<open>The callback's result is its \<open>int\<close> return value and the frontend afterwards.\<close>

definition internal_process_callback ::
  "jack_nframes_t \<Rightarrow> jack_nframes_t \<Rightarrow> 'e JackFrontend \<Rightarrow> (int \<times> 'e JackFrontend) option" where
  "internal_process_callback AUDIO_CHUNK_SIZE nframes st =
     (if nframes < 64 \<or> nframes mod 64 \<noteq> 0 then
        Some (0, st\<lparr>jf_log := jf_log st @
                 [''Chunk size not a multiple of AUDIO_CHUNK_SIZE. Skipping.'']\<rparr>)
      else
        map_option (\<lambda>st'. (0, st'))
          (process_audio AUDIO_CHUNK_SIZE nframes (process_midi (process_events st))))"

text \<open>The frame offsets \<open>0, 64, 128, \<dots>\<close> of the \<open>nframes / 64\<close> chunks of a call.\<close>

definition chunk_offsets :: "jack_nframes_t \<Rightarrow> jack_nframes_t list" where
  "chunk_offsets nframes = map (\<lambda>k. 64 * of_nat k) [0..<unat nframes div 64]"

text \<open>A frontend with two queued events, before any call.\<close>

definition example_frontend :: "nat JackFrontend" where
  "example_frontend = \<lparr>jf_event_queue = [7, 9], jf_engine = [], jf_log = []\<rparr>"

section \<open>Realtime events\<close>

text \<open>
  The realtime event as the sources use it: a type tag, the target processor, the sample
  offset, and the payload that belongs to the tag. The payload union is kept as one
  record with the fields of the keyboard events (channel, note, velocity) and of the
  parameter change events (parameter id, value).
\<close>

datatype RtEventType =
    NOTE_ON | NOTE_OFF | NOTE_AFTERTOUCH | PITCH_BEND | AFTERTOUCH | MODULATION
  | WRAPPED_MIDI_EVENT | FLOAT_PARAMETER_CHANGE | INT_PARAMETER_CHANGE | BOOL_PARAMETER_CHANGE
  | SET_BYPASS

record RtEvent =
  ev_type :: RtEventType
  ev_processor_id :: ObjectId
  ev_sample_offset :: int
  ev_channel :: int
  ev_note :: int
  ev_velocity :: float32
  ev_param_id :: ObjectId
  ev_value :: float32

definition make_note_on_event :: "ObjectId \<Rightarrow> int \<Rightarrow> int \<Rightarrow> int \<Rightarrow> float32 \<Rightarrow> RtEvent" where
  "make_note_on_event target offset channel note velocity =
     \<lparr>ev_type = NOTE_ON, ev_processor_id = target, ev_sample_offset = offset,
      ev_channel = channel, ev_note = note, ev_velocity = velocity,
      ev_param_id = 0, ev_value = 0\<rparr>"

definition make_parameter_change_event :: "ObjectId \<Rightarrow> int \<Rightarrow> ObjectId \<Rightarrow> float32 \<Rightarrow> RtEvent" where
  "make_parameter_change_event target offset param_id v =
     \<lparr>ev_type = FLOAT_PARAMETER_CHANGE, ev_processor_id = target, ev_sample_offset = offset,
      ev_channel = 0, ev_note = 0, ev_velocity = 0,
      ev_param_id = param_id, ev_value = v\<rparr>"

section \<open>library/lv2/lv2_wrapper.cpp\<close>

datatype PortType = TYPE_CONTROL | TYPE_AUDIO | TYPE_EVENT | TYPE_CV | TYPE_UNKNOWN

datatype PortFlow = FLOW_INPUT | FLOW_OUTPUT | FLOW_UNKNOWN

datatype PlayState = RUNNING | PAUSE_REQUESTED | PAUSED

record Port =
  port_type :: PortType
  port_flow :: PortFlow
  control_value :: float32

text \<open>
  The part of the wrapper that \<open>process_event\<close> and \<open>process_audio\<close> read and
  write: the bypass flag of the processor, the ports of the model, the incoming event
  queue and the play state of the model.
\<close>

record Lv2Wrapper =
  lv2_bypassed :: bool
  lv2_ports :: "Port list"
  incoming_event_queue :: "RtEvent list"
  play_state :: PlayState
  lv2_log :: "string list"

datatype lv2_failure = AssertionFailed | PortIndexOutOfRange

text \<open>
  \<open>process_event\<close>. A float parameter change is written to the control value of the
  port whose index is the parameter id, at once and whatever the bypass flag is. The
  index is the id converted to \<open>int\<close>; the assertion bounds it from above only, and a
  negative index would read outside the port list. A keyboard event is pushed on the
  incoming queue, and dropped with a warning when the queue is full. The test
  \<open>is_keyboard_event\<close> and the capacity of the queue are declared outside this file and
  are arguments here.
\<close>

definition process_event ::
  "(RtEvent \<Rightarrow> bool) \<Rightarrow> nat \<Rightarrow> RtEvent \<Rightarrow> Lv2Wrapper \<Rightarrow> lv2_failure + Lv2Wrapper" where
  "process_event is_keyboard_event capacity event w =
     (if ev_type event = FLOAT_PARAMETER_CHANGE then
        (let portIndex = sint (ev_param_id event) in
         if \<not> portIndex < int (length (lv2_ports w)) then Inl AssertionFailed
         else if portIndex < 0 then Inl PortIndexOutOfRange
         else Inr (w\<lparr>lv2_ports := (lv2_ports w)
                      [nat portIndex := (lv2_ports w ! nat portIndex)
                                          \<lparr>control_value := ev_value event\<rparr>]\<rparr>))
      else if is_keyboard_event event then
        (if length (incoming_event_queue w) < capacity
         then Inr (w\<lparr>incoming_event_queue := incoming_event_queue w @ [event]\<rparr>)
         else Inr (w\<lparr>lv2_log := lv2_log w @ [''MIDI queue Overflow!'']\<rparr>))
      else Inr (w\<lparr>lv2_log := lv2_log w @ [''received unhandled event'']\<rparr>))"

text \<open>\<open>_flush_event_queue\<close>: pop until the queue is empty.\<close>

function flush_event_queue :: "Lv2Wrapper \<Rightarrow> Lv2Wrapper" where
  "flush_event_queue w =
     (if incoming_event_queue w \<noteq> [] then
        flush_event_queue (w\<lparr>incoming_event_queue := tl (incoming_event_queue w)\<rparr>)
      else w)"
  by pat_completeness auto
termination
  by (relation "measure (\<lambda>w. length (incoming_event_queue w))") auto

declare flush_event_queue.simps [simp del]

text \<open>
  \<open>process_audio\<close> on the input buffer and the output buffer it is given; the result is
  the output buffer and the wrapper afterwards. \<open>bypass_process\<close> belongs to the
  processor base class and the plugin path (mapping the buffers, delivering the inputs,
  running the plugin instance, delivering its outputs) to the plugin library: both are
  arguments. A paused model leaves the output buffer as it is.
\<close>

definition lv2_process_audio ::
  "('b \<Rightarrow> 'b \<Rightarrow> 'b) \<Rightarrow> (Lv2Wrapper \<Rightarrow> 'b \<Rightarrow> 'b \<Rightarrow> 'b \<times> Lv2Wrapper) \<Rightarrow> Lv2Wrapper \<Rightarrow> 'b \<Rightarrow> 'b
     \<Rightarrow> 'b \<times> Lv2Wrapper" where
  "lv2_process_audio bypass_process run_plugin w in_buffer out_buffer =
     (if lv2_bypassed w then
        (bypass_process in_buffer out_buffer, flush_event_queue w)
      else
        (case play_state w of
           PAUSE_REQUESTED \<Rightarrow> run_plugin (w\<lparr>play_state := PAUSED\<rparr>) in_buffer out_buffer
         | PAUSED \<Rightarrow> (out_buffer, w)
         | RUNNING \<Rightarrow> run_plugin w in_buffer out_buffer))"

text \<open>
  A bypassed wrapper with one control port at value 0 and one note-on waiting in the
  queue, and a float parameter change for that port.
\<close>

definition example_wrapper :: Lv2Wrapper where
  "example_wrapper =
     \<lparr>lv2_bypassed = True,
      lv2_ports = [\<lparr>port_type = TYPE_CONTROL, port_flow = FLOW_INPUT, control_value = 0\<rparr>],
      incoming_event_queue = [make_note_on_event 1 0 0 60 0x3F800000],
      play_state = RUNNING, lv2_log = []\<rparr>"

definition example_parameter_change :: RtEvent where
  "example_parameter_change = make_parameter_change_event 1 0 0 0x3F000000"

section \<open>engine/track.cpp, as the specification and its unit test describe it\<close>

text \<open>
  \<open>engine/track.cpp\<close> is not among the sources; its unit test
  \<open>test/unittests/engine/track_test.cpp\<close> is. Channel renegotiation and the gain
  and pan smoothing are outside the claims and left out.
\<close>









text \<open>
  Modelled from the spec: the inner processors of a track, whose classes are missing. Of
  a processor the track model needs its id and the events it produces in a block from
  the keyboard events it receives; the passthrough plugin of the test hands on what it
  receives.
\<close>

record Processor =
  proc_id :: ObjectId
  proc_events :: "RtEvent list \<Rightarrow> RtEvent list"


text \<open>
  Modelled from the spec: the \<open>Track\<close> class of \<open>engine/track.cpp\<close>, which is
  missing. A track has its own processor id, an ordered chain of processors, the keyboard
  events injected for the next block and an event output FIFO. The chain is given its
  capacity at construction and never grows beyond it, since \<open>add\<close>, \<open>remove\<close> and
  \<open>move\<close> must not allocate on the realtime thread; the number of processors a track
  has room for is declared with the class and is an argument of the constructor here.
\<close>

record Track =
  track_id :: ObjectId
  track_max_processors :: nat
  track_processors :: "Processor list"
  track_kb_event_buffer :: "RtEvent list"
  track_event_output :: "RtEvent list"













section \<open>engine/transport.cpp, as the specification describes it\<close>

text \<open>
  \<open>engine/transport.cpp\<close> is not among the sources; its unit test
  \<open>test/unittests/engine/transport_test.cpp\<close> is. The definitions of this section
  follow the specification's sections 3, 4.4 and 8, for the internal sync mode, with
  exact arithmetic in place of \<open>double\<close>, and with tempo and time signature changes that
  apply at once (the second argument \<open>false\<close> of the test's calls).
\<close>

text \<open>
  Modelled from the spec: the playing modes, the play state changes and the time
  signature, whose declarations are missing.
\<close>

datatype PlayingMode = STOPPED | PLAYING | RECORDING

datatype PlayStateChange = UNCHANGED | STARTING | STOPPING

record TimeSignature =
  numerator :: int
  denominator :: int

text \<open>
  Modelled from the spec: the attributes of the transport. The playing mode asked for
  with \<open>set_playing_mode\<close> is kept beside the mode in effect; times are in
  microseconds.
\<close>

record Transport =
  tr_samplerate :: real
  tr_tempo :: real
  tr_time_signature :: TimeSignature
  tr_set_playmode :: PlayingMode
  tr_playmode :: PlayingMode
  tr_sample_count :: int
  tr_time :: int
  tr_latency :: int
  tr_beat_count :: real
  tr_bar_start_beat_count :: real
  tr_current_bar_beat_count :: real
  tr_state_change :: PlayStateChange

text \<open>
  Modelled from the spec: the constructor and the setters of the missing
  \<open>Transport\<close> class. A new transport is stopped at position 0, at tempo 120 in 4/4.
\<close>

definition Transport_new :: "real \<Rightarrow> Transport" where
  "Transport_new sample_rate =
     \<lparr>tr_samplerate = sample_rate, tr_tempo = 120,
      tr_time_signature = \<lparr>numerator = 4, denominator = 4\<rparr>,
      tr_set_playmode = STOPPED, tr_playmode = STOPPED,
      tr_sample_count = 0, tr_time = 0, tr_latency = 0,
      tr_beat_count = 0, tr_bar_start_beat_count = 0, tr_current_bar_beat_count = 0,
      tr_state_change = UNCHANGED\<rparr>"

definition set_sample_rate :: "real \<Rightarrow> Transport \<Rightarrow> Transport" where
  "set_sample_rate sample_rate t = t\<lparr>tr_samplerate := sample_rate\<rparr>"

definition set_tempo :: "real \<Rightarrow> Transport \<Rightarrow> Transport" where
  "set_tempo tempo t = t\<lparr>tr_tempo := tempo\<rparr>"

definition set_time_signature :: "TimeSignature \<Rightarrow> Transport \<Rightarrow> Transport" where
  "set_time_signature signature t = t\<lparr>tr_time_signature := signature\<rparr>"

definition set_playing_mode :: "PlayingMode \<Rightarrow> Transport \<Rightarrow> Transport" where
  "set_playing_mode mode t = t\<lparr>tr_set_playmode := mode\<rparr>"

definition set_latency :: "int \<Rightarrow> Transport \<Rightarrow> Transport" where
  "set_latency output_latency t = t\<lparr>tr_latency := output_latency\<rparr>"

text \<open>
  Modelled from the spec: \<open>beats_per_bar = time_sig.numerator \<times> 4 / time_sig.denominator\<close>.
\<close>

definition beats_per_bar :: "Transport \<Rightarrow> real" where
  "beats_per_bar t =
     of_int (numerator (tr_time_signature t)) * 4 / of_int (denominator (tr_time_signature t))"

definition playing :: "Transport \<Rightarrow> bool" where
  "playing t = (tr_playmode t \<noteq> STOPPED)"

text \<open>
  Modelled from the spec: \<open>Transport::set_time\<close>, which is missing. The call moves
  the transport to the given wall-clock time and sample position. The samples passed
  since the previous call (one chunk when it is called once a block) advance the beats by
  \<open>chunk \<times> tempo / (60 \<times> sample_rate)\<close> iff the playing mode is playing or recording.
  When the beats cross a multiple of \<open>beats_per_bar\<close> the bar start is advanced to the
  new bar boundary, and the bar beats are the beats minus the bar start. A change
  between stopped and not stopped, asked for since the previous call, takes effect here
  and is reported as starting or stopping by \<open>current_state_change\<close> until the next call.
\<close>

definition set_time :: "int \<Rightarrow> int \<Rightarrow> Transport \<Rightarrow> Transport" where
  "set_time timestamp samples t =
     (let chunk = samples - tr_sample_count t;
          mode = tr_set_playmode t;
          change = (if tr_playmode t = STOPPED \<and> mode \<noteq> STOPPED then STARTING
                    else if tr_playmode t \<noteq> STOPPED \<and> mode = STOPPED then STOPPING
                    else UNCHANGED);
          beats = (if mode = PLAYING \<or> mode = RECORDING
                   then tr_beat_count t + of_int chunk * tr_tempo t / (60 * tr_samplerate t)
                   else tr_beat_count t);
          bar_start = (if tr_bar_start_beat_count t + beats_per_bar t \<le> beats
                       then of_int \<lfloor>beats / beats_per_bar t\<rfloor> * beats_per_bar t
                       else tr_bar_start_beat_count t)
      in t\<lparr>tr_time := timestamp + tr_latency t,
           tr_sample_count := samples,
           tr_playmode := mode,
           tr_state_change := change,
           tr_beat_count := beats,
           tr_bar_start_beat_count := bar_start,
           tr_current_bar_beat_count := beats - bar_start\<rparr>)"

text \<open>
  Modelled from the spec: the observables \<open>current_beats\<close>, \<open>current_bar_beats\<close>,
  \<open>current_bar_start_beats\<close> and \<open>current_state_change\<close> of the missing
  \<open>Transport\<close> class.
\<close>

definition current_beats :: "Transport \<Rightarrow> real" where
  "current_beats t = tr_beat_count t"

definition current_bar_beats :: "Transport \<Rightarrow> real" where
  "current_bar_beats t = tr_current_bar_beat_count t"

definition current_bar_start_beats :: "Transport \<Rightarrow> real" where
  "current_bar_start_beats t = tr_bar_start_beat_count t"

definition current_state_change :: "Transport \<Rightarrow> PlayStateChange" where
  "current_state_change t = tr_state_change t"

text \<open>
  A sequence of \<open>set_time\<close> calls, each with its timestamp and sample position: the
  transports after the first, the second, \<open>\<dots>\<close> call. And the invariants of the
  timeline that section 3 of the specification lists.
\<close>

fun set_times :: "(int \<times> int) list \<Rightarrow> Transport \<Rightarrow> Transport list" where
  "set_times [] t = []"
| "set_times ((timestamp, samples) # calls) t =
     set_time timestamp samples t # set_times calls (set_time timestamp samples t)"

definition timeline_ok :: "Transport \<Rightarrow> bool" where
  "timeline_ok t =
     (current_bar_beats t + current_bar_start_beats t = current_beats t
      \<and> 0 \<le> current_bar_beats t \<and> current_bar_beats t < beats_per_bar t
      \<and> current_bar_start_beats t \<le> current_beats t)"

text \<open>The set-up of the test \<open>TestTimeline44Time\<close>, up to its first \<open>set_time\<close>.\<close>

definition timeline_44 :: Transport where
  "timeline_44 =
     set_time 0 0
       (set_playing_mode PLAYING
         (set_tempo 120
           (set_time_signature \<lparr>numerator = 4, denominator = 4\<rparr>
             (set_sample_rate 32768 (Transport_new 48000)))))"

lemmas transport_defs =
  Transport_new_def set_sample_rate_def set_tempo_def set_time_signature_def
  set_playing_mode_def set_latency_def beats_per_bar_def set_time_def
  current_beats_def current_bar_beats_def current_bar_start_beats_def current_state_change_def

text \<open>
  A transport that plays at 48 kHz, tempo 120 in 4/4, and four calls a chunk apart;
  and the stopped transport of the test \<open>TestPlayStateChange\<close>.
\<close>

definition playing_transport :: Transport where
  "playing_transport = set_time 0 0 (set_playing_mode PLAYING (Transport_new 48000))"

definition example_calls :: "(int \<times> int) list" where
  "example_calls = [(1333, 64), (2667, 128), (2000000, 96000), (2001333, 96064)]"

definition stopped_transport :: Transport where
  "stopped_transport = set_time 0 0 (set_playing_mode STOPPED (Transport_new 48000))"

section \<open>Processor state: results\<close>

lemma bypassed_roundtrip:
  "map_option (\<lambda>i. i \<noteq> (0::int)) (map_option (\<lambda>b. if b then 1 else 0) ob) = ob"
  by (cases ob) auto

text \<open>
  C1, as stated, at the example bundle: the exported bytes are empty, so they hold no
  format version, no processor uid and none of the bundle's values, and applying them
  reports failure.
\<close>

theorem C1_serialize_counterexample:
  "serialize example_state = [] \<and> \<not> fst (deserialize ProcessorState_new (serialize example_state))
   \<and> snd (deserialize ProcessorState_new (serialize example_state)) \<noteq> example_state"
  by (simp add: serialize_def deserialize_def example_state_def ProcessorState_new_def
      set_program_def set_bypass_def add_parameter_change_def add_property_change_def)

text \<open>
  C1, amended: the bundle lives in memory only. Every setter's value is what the
  matching getter returns, with the sequences in insertion order; an \<open>RtState\<close> built
  from a bundle has the same bypass flag and the same parameter values;
  \<open>serialize\<close> returns no bytes for every bundle and \<open>deserialize\<close> fails on every
  byte sequence and leaves the bundle as it was.
\<close>

theorem C1_state_bundle_in_memory:
  "program (set_program p st) = Some p
   \<and> bypassed (set_bypass b st) = Some (if b then 1 else 0)
   \<and> parameters (add_parameter_change i v st) = parameters st @ [(i, v)]
   \<and> properties (add_property_change j s st) = properties st @ [(j, s)]
   \<and> rt_bypassed (RtState_from st) = ps_bypassed st
   \<and> RtState_parameters (RtState_from st) = parameters st
   \<and> serialize st = []
   \<and> deserialize st bytes = (False, st)"
  by (simp add: program_def set_program_def bypassed_def set_bypass_def parameters_def
      add_parameter_change_def properties_def add_property_change_def RtState_from_def
      RtState_parameters_def serialize_def deserialize_def bypassed_roundtrip)

section \<open>MIDI controller: results\<close>

text \<open>
  C10: each of the ten mutating commands returns \<open>OK\<close> and does nothing but post one
  event for immediate processing, whose closure makes the dispatcher call of that
  command with the command's arguments. The call is made when the event is run, and its
  failure becomes the event's own result \<open>ERROR\<close>, which the caller, who already holds
  \<open>OK\<close>, never sees.
\<close>

theorem C10_midi_commands_return_ok:
  "midi_command (ConnectKbdInputToTrack track channel port raw_midi) ctl =
     (CS_OK, ctl\<lparr>event_dispatcher := event_dispatcher ctl @
        [LambdaEvent
           (if raw_midi then connect_raw_midi_to_track port track (int_from_midi_channel channel)
            else connect_kb_to_track port track (int_from_midi_channel channel))
           IMMEDIATE_PROCESS]\<rparr>)
   \<and> midi_command (ConnectKbdOutputFromTrack track channel port) ctl =
     (CS_OK, ctl\<lparr>event_dispatcher := event_dispatcher ctl @
        [LambdaEvent (connect_track_to_output port track (int_from_midi_channel channel))
           IMMEDIATE_PROCESS]\<rparr>)
   \<and> midi_command (ConnectCcToParameter processor_id parameter_id channel port cc_number
          min_range max_range relative_mode) ctl =
     (CS_OK, ctl\<lparr>event_dispatcher := event_dispatcher ctl @
        [LambdaEvent
           (connect_cc_to_parameter port processor_id parameter_id cc_number min_range max_range
              relative_mode (int_from_midi_channel channel))
           IMMEDIATE_PROCESS]\<rparr>)
   \<and> midi_command (ConnectPcToProcessor processor_id channel port) ctl =
     (CS_OK, ctl\<lparr>event_dispatcher := event_dispatcher ctl @
        [LambdaEvent (connect_pc_to_processor port processor_id (int_from_midi_channel channel))
           IMMEDIATE_PROCESS]\<rparr>)
   \<and> midi_command (DisconnectKbdInput track channel port raw_midi) ctl =
     (CS_OK, ctl\<lparr>event_dispatcher := event_dispatcher ctl @
        [LambdaEvent
           (if raw_midi
            then disconnect_raw_midi_from_track port track (int_from_midi_channel channel)
            else disconnect_kb_from_track port track (int_from_midi_channel channel))
           IMMEDIATE_PROCESS]\<rparr>)
   \<and> midi_command (DisconnectKbdOutput track channel port) ctl =
     (CS_OK, ctl\<lparr>event_dispatcher := event_dispatcher ctl @
        [LambdaEvent (disconnect_track_from_output port track (int_from_midi_channel channel))
           IMMEDIATE_PROCESS]\<rparr>)
   \<and> midi_command (DisconnectCc processor_id channel port cc_number) ctl =
     (CS_OK, ctl\<lparr>event_dispatcher := event_dispatcher ctl @
        [LambdaEvent
           (disconnect_cc_from_parameter port processor_id cc_number (int_from_midi_channel channel))
           IMMEDIATE_PROCESS]\<rparr>)
   \<and> midi_command (DisconnectPc processor_id channel port) ctl =
     (CS_OK, ctl\<lparr>event_dispatcher := event_dispatcher ctl @
        [LambdaEvent
           (disconnect_pc_from_processor port processor_id (int_from_midi_channel channel))
           IMMEDIATE_PROCESS]\<rparr>)
   \<and> midi_command (DisconnectAllCcFromProcessor processor_id) ctl =
     (CS_OK, ctl\<lparr>event_dispatcher := event_dispatcher ctl @
        [LambdaEvent (disconnect_all_cc_from_processor processor_id) IMMEDIATE_PROCESS]\<rparr>)
   \<and> midi_command (DisconnectAllPcFromProcessor processor_id) ctl =
     (CS_OK, ctl\<lparr>event_dispatcher := event_dispatcher ctl @
        [LambdaEvent (disconnect_all_pc_from_processor processor_id) IMMEDIATE_PROCESS]\<rparr>)
   \<and> fst (midi_command c ctl) = CS_OK
   \<and> run_lambda midi_dispatcher (LambdaEvent call IMMEDIATE_PROCESS) =
       (if midi_dispatcher call = MD_OK then HANDLED_OK else ERROR)"
proof -
  have "fst (midi_command c ctl) = CS_OK"
    by (cases c) (simp_all add: midi_command_defs Let_def)
  then show ?thesis by (simp add: midi_command_defs Let_def)
qed

section \<open>Jack frontend: results\<close>

lemma process_events_eq:
  "process_events st =
     st\<lparr>jf_event_queue := [], jf_engine := jf_engine st @ map send_rt_event (jf_event_queue st)\<rparr>"
proof (induction st rule: process_events.induct)
  case (1 st)
  show ?case
  proof (cases "jf_event_queue st")
    case Nil
    then show ?thesis by (subst process_events.simps) simp
  next
    case (Cons e es)
    then show ?thesis using 1 by (subst process_events.simps) simp
  qed
qed

lemma process_audio_loop_steps:
  fixes nframes :: jack_nframes_t and st :: "'a JackFrontend"
  assumes n: "unat nframes = 64 * n" and k: "k \<le> n"
  shows "process_audio_loop 64 nframes (of_nat (64 * k)) st =
         Some (st\<lparr>jf_engine := jf_engine st @ map (\<lambda>j. process_chunk (64 * of_nat j)) [k..<n]\<rparr>)"
  using k
proof (induction "n - k" arbitrary: k st)
  case 0
  then have "k = n" by simp
  then have "(of_nat (64 * k) :: jack_nframes_t) = of_nat (unat nframes)" using n by simp
  then have "(of_nat (64 * k) :: jack_nframes_t) = nframes" by simp
  then show ?case by (subst process_audio_loop.simps) (simp add: \<open>k = n\<close>)
next
  case (Suc d)
  then have lt: "k < n" by simp
  have bound: "64 * n < 2 ^ 32" using n unsigned_less [of nframes, where 'a = nat] by simp
  have "unat (of_nat (64 * k) :: jack_nframes_t) = 64 * k"
    using lt bound by (subst unat_of_nat) simp
  then have less: "(of_nat (64 * k) :: jack_nframes_t) < nframes"
    using lt n by (simp add: word_less_nat_alt)
  have next_k: "(of_nat (64 * k) :: jack_nframes_t) + 64 = of_nat (64 * Suc k)" by simp
  have "d = n - Suc k" using Suc.hyps(2) by simp
  then have IH: "process_audio_loop 64 nframes (of_nat (64 * Suc k)) st' =
         Some (st'\<lparr>jf_engine := jf_engine st' @ map (\<lambda>j. process_chunk (64 * of_nat j)) [Suc k..<n]\<rparr>)"
    for st' :: "'a JackFrontend"
    using Suc.hyps(1) [of "Suc k" st'] lt by simp
  have upt: "[k..<n] = k # [Suc k..<n]" using lt by (simp add: upt_conv_Cons)
  have "process_audio_loop 64 nframes (of_nat (64 * k)) st =
        process_audio_loop 64 nframes (of_nat (64 * Suc k))
          (st\<lparr>jf_engine := jf_engine st @ [process_chunk (of_nat (64 * k))]\<rparr>)"
    by (subst process_audio_loop.simps) (simp only: less if_True next_k)
  also have "\<dots> =
        Some (st\<lparr>jf_engine := jf_engine st @ map (\<lambda>j. process_chunk (64 * of_nat j)) [k..<n]\<rparr>)"
    by (simp only: IH upt) simp
  finally show ?case .
qed

lemma internal_process_callback_eq:
  fixes nframes :: jack_nframes_t
  shows "internal_process_callback 64 nframes st =
     Some (0, if nframes < 64 \<or> nframes mod 64 \<noteq> 0
              then st\<lparr>jf_log := jf_log st @
                 [''Chunk size not a multiple of AUDIO_CHUNK_SIZE. Skipping.'']\<rparr>
              else st\<lparr>jf_event_queue := [],
                      jf_engine := jf_engine st @ map send_rt_event (jf_event_queue st)
                                 @ map process_chunk (chunk_offsets nframes)\<rparr>)"
proof (cases "nframes < 64 \<or> nframes mod 64 \<noteq> 0")
  case True
  then show ?thesis by (simp add: internal_process_callback_def)
next
  case False
  then have "unat (nframes mod 64) = 0" by simp
  then have "unat nframes mod 64 = 0" by (simp add: unat_mod_distrib)
  then obtain n where n: "unat nframes = 64 * n" by (auto simp: mod_eq_0_iff_dvd)
  then have nd: "n = unat nframes div 64" by simp
  have "process_audio 64 nframes (process_midi (process_events st)) =
        Some ((process_events st)\<lparr>jf_engine := jf_engine (process_events st) @
                map (\<lambda>j. process_chunk (64 * of_nat j)) [0..<n]\<rparr>)"
    using process_audio_loop_steps [OF n, where k = 0 and st = "process_events st"]
    by (simp add: process_audio_def process_midi_def)
  then show ?thesis
    using False nd
    by (simp add: internal_process_callback_def process_events_eq chunk_offsets_def comp_def)
qed

text \<open>
  C8, as stated, at \<open>nframes = 100\<close>: the call is not answered with an error status.
  It returns 0, the value a processed call of 128 frames returns too, and only a warning
  is logged; no event is forwarded and no chunk is rendered.
\<close>

theorem C8_not_rejected_counterexample:
  "map_option fst (internal_process_callback 64 100 example_frontend) = Some 0
   \<and> map_option fst (internal_process_callback 64 128 example_frontend) = Some 0
   \<and> map_option (jf_engine \<circ> snd) (internal_process_callback 64 100 example_frontend) = Some []
   \<and> map_option (jf_event_queue \<circ> snd) (internal_process_callback 64 100 example_frontend)
       = Some [7, 9]"
  by (simp add: internal_process_callback_eq example_frontend_def)

text \<open>
  C8, amended, with \<open>AUDIO_CHUNK_SIZE = 64\<close>: the callback always returns, and always
  returns 0. When \<open>nframes\<close> is below 64 or not a multiple of 64 it logs a warning and
  does nothing else: queued events stay queued and the engine is not called. Otherwise
  it forwards the queued events to the engine and then renders \<open>nframes / 64\<close> chunks,
  at the frame offsets \<open>0, 64, 128, \<dots>\<close> in this order.
\<close>

theorem C8_callback_skips_or_splits:
  fixes nframes :: jack_nframes_t
  shows "internal_process_callback 64 nframes st =
     Some (0, if nframes < 64 \<or> nframes mod 64 \<noteq> 0
              then st\<lparr>jf_log := jf_log st @
                 [''Chunk size not a multiple of AUDIO_CHUNK_SIZE. Skipping.'']\<rparr>
              else st\<lparr>jf_event_queue := [],
                      jf_engine := jf_engine st @ map send_rt_event (jf_event_queue st)
                                 @ map process_chunk (chunk_offsets nframes)\<rparr>)
   \<and> length (chunk_offsets nframes) = unat nframes div 64
   \<and> (\<forall>k < unat nframes div 64. chunk_offsets nframes ! k = 64 * of_nat k)"
  by (simp add: internal_process_callback_eq) (simp add: chunk_offsets_def)

theorem C8_callback_witness:
  "internal_process_callback 64 192 example_frontend =
     Some (0, \<lparr>jf_event_queue = [],
               jf_engine = [send_rt_event 7, send_rt_event 9,
                            process_chunk 0, process_chunk 64, process_chunk 128],
               jf_log = []\<rparr>)
   \<and> internal_process_callback 64 100 example_frontend =
     Some (0, \<lparr>jf_event_queue = [7, 9], jf_engine = [],
               jf_log = [''Chunk size not a multiple of AUDIO_CHUNK_SIZE. Skipping.'']\<rparr>)"
  using C8_callback_skips_or_splits [of 192 example_frontend]
        C8_callback_skips_or_splits [of 100 example_frontend]
  by (simp add: example_frontend_def chunk_offsets_def upt_conv_Cons)

section \<open>LV2 wrapper: results\<close>

lemma flush_event_queue_eq: "flush_event_queue w = w\<lparr>incoming_event_queue := []\<rparr>"
proof (induction w rule: flush_event_queue.induct)
  case (1 w)
  show ?case
  proof (cases "incoming_event_queue w")
    case Nil
    then show ?thesis by (subst flush_event_queue.simps) simp
  next
    case (Cons e es)
    then show ?thesis using 1 by (subst flush_event_queue.simps) simp
  qed
qed

lemma process_event_parameter_change:
  assumes "ev_type e = FLOAT_PARAMETER_CHANGE"
    and "0 \<le> sint (ev_param_id e)" and "sint (ev_param_id e) < int (length (lv2_ports w))"
  shows "process_event kb cap e w =
     Inr (w\<lparr>lv2_ports := (lv2_ports w)
             [nat (sint (ev_param_id e)) :=
                (lv2_ports w ! nat (sint (ev_param_id e)))\<lparr>control_value := ev_value e\<rparr>]\<rparr>)"
  using assms by (simp add: process_event_def Let_def)

text \<open>
  C9, as stated, at the bypassed example wrapper: a float parameter change sent to it is
  not discarded. \<open>process_event\<close> writes it to the port, the following bypassed
  \<open>process_audio\<close> call empties the queue and leaves the port alone, and the port holds
  the new value afterwards.
\<close>

theorem C9_parameter_change_survives_counterexample:
  "(case process_event (\<lambda>e. ev_type e = NOTE_ON) 100 example_parameter_change example_wrapper of
      Inl failure \<Rightarrow> False
    | Inr w \<Rightarrow>
        lv2_bypassed w
        \<and> incoming_event_queue
             (snd (lv2_process_audio (\<lambda>i out. i) (\<lambda>w i out. (out, w)) w [1::nat] [0])) = []
        \<and> map control_value
             (lv2_ports (snd (lv2_process_audio (\<lambda>i out. i) (\<lambda>w i out. (out, w)) w [1::nat] [0])))
           = [0x3F000000])
   \<and> map control_value (lv2_ports example_wrapper) = [0]"
  by (simp add: process_event_def example_parameter_change_def make_parameter_change_event_def
      example_wrapper_def lv2_process_audio_def flush_event_queue_eq Let_def)

text \<open>
  C9, amended: while the wrapper is bypassed, every \<open>process_audio\<close> call produces its
  output by the bypass path and leaves the incoming event queue empty, so every keyboard
  event queued for the block is discarded; nothing else of the wrapper changes. The
  queue holds keyboard events only. A float parameter change is not queued:
  \<open>process_event\<close> writes it to the control value of its port at once, bypassed or not,
  and it is still there after the bypassed \<open>process_audio\<close> call.
\<close>

theorem C9_bypass_flushes_keyboard_events:
  "(lv2_bypassed w \<longrightarrow>
      lv2_process_audio bypass_process run_plugin w in_buffer out_buffer =
        (bypass_process in_buffer out_buffer, w\<lparr>incoming_event_queue := []\<rparr>))
   \<and> (ev_type e \<noteq> FLOAT_PARAMETER_CHANGE \<and> is_keyboard_event e
        \<and> length (incoming_event_queue w) < capacity \<longrightarrow>
      process_event is_keyboard_event capacity e w =
        Inr (w\<lparr>incoming_event_queue := incoming_event_queue w @ [e]\<rparr>))
   \<and> (ev_type e = FLOAT_PARAMETER_CHANGE \<and> 0 \<le> sint (ev_param_id e)
        \<and> sint (ev_param_id e) < int (length (lv2_ports w)) \<longrightarrow>
      (\<exists>w'. process_event is_keyboard_event capacity e w = Inr w'
         \<and> incoming_event_queue w' = incoming_event_queue w
         \<and> lv2_bypassed w' = lv2_bypassed w
         \<and> control_value (lv2_ports w' ! nat (sint (ev_param_id e))) = ev_value e
         \<and> (lv2_bypassed w \<longrightarrow>
              lv2_ports (snd (lv2_process_audio bypass_process run_plugin w' in_buffer out_buffer))
                = lv2_ports w')))"
proof (intro conjI impI)
  assume "lv2_bypassed w"
  then show "lv2_process_audio bypass_process run_plugin w in_buffer out_buffer =
        (bypass_process in_buffer out_buffer, w\<lparr>incoming_event_queue := []\<rparr>)"
    by (simp add: lv2_process_audio_def flush_event_queue_eq)
next
  assume "ev_type e \<noteq> FLOAT_PARAMETER_CHANGE \<and> is_keyboard_event e
        \<and> length (incoming_event_queue w) < capacity"
  then show "process_event is_keyboard_event capacity e w =
        Inr (w\<lparr>incoming_event_queue := incoming_event_queue w @ [e]\<rparr>)"
    by (simp add: process_event_def)
next
  assume a: "ev_type e = FLOAT_PARAMETER_CHANGE \<and> 0 \<le> sint (ev_param_id e)
        \<and> sint (ev_param_id e) < int (length (lv2_ports w))"
  let ?i = "nat (sint (ev_param_id e))"
  let ?w = "w\<lparr>lv2_ports := (lv2_ports w)[?i := (lv2_ports w ! ?i)\<lparr>control_value := ev_value e\<rparr>]\<rparr>"
  have eq: "process_event is_keyboard_event capacity e w = Inr ?w"
    using a by (simp add: process_event_parameter_change)
  have idx: "?i < length (lv2_ports w)" using a by linarith
  have "control_value (lv2_ports ?w ! ?i) = ev_value e" using idx by simp
  moreover have "lv2_bypassed w \<longrightarrow>
      lv2_ports (snd (lv2_process_audio bypass_process run_plugin ?w in_buffer out_buffer))
        = lv2_ports ?w"
    by (simp add: lv2_process_audio_def flush_event_queue_eq)
  ultimately show "\<exists>w'. process_event is_keyboard_event capacity e w = Inr w'
         \<and> incoming_event_queue w' = incoming_event_queue w
         \<and> lv2_bypassed w' = lv2_bypassed w
         \<and> control_value (lv2_ports w' ! nat (sint (ev_param_id e))) = ev_value e
         \<and> (lv2_bypassed w \<longrightarrow>
              lv2_ports (snd (lv2_process_audio bypass_process run_plugin w' in_buffer out_buffer))
                = lv2_ports w')"
    using eq by simp
qed

theorem C9_bypass_witness:
  "lv2_bypassed example_wrapper
   \<and> lv2_process_audio (\<lambda>i out. i) (\<lambda>w i out. (out, w)) example_wrapper [1::nat] [0] =
        ([1], example_wrapper\<lparr>incoming_event_queue := []\<rparr>)
   \<and> incoming_event_queue example_wrapper \<noteq> []
   \<and> process_event (\<lambda>e. ev_type e = NOTE_ON) 100 (make_note_on_event 1 0 0 62 0x3F800000)
        example_wrapper =
        Inr (example_wrapper\<lparr>incoming_event_queue :=
               incoming_event_queue example_wrapper @ [make_note_on_event 1 0 0 62 0x3F800000]\<rparr>)
   \<and> (\<exists>w'. process_event (\<lambda>e. ev_type e = NOTE_ON) 100 example_parameter_change example_wrapper
              = Inr w'
         \<and> control_value (lv2_ports w' ! 0) = 0x3F000000
         \<and> lv2_ports (snd (lv2_process_audio (\<lambda>i out. i) (\<lambda>w i out. (out, w)) w' [1::nat] [0]))
             = lv2_ports w')"
proof -
  have b: "lv2_bypassed example_wrapper" by (simp add: example_wrapper_def)
  have k: "ev_type (make_note_on_event 1 0 0 62 0x3F800000) \<noteq> FLOAT_PARAMETER_CHANGE
      \<and> (\<lambda>e. ev_type e = NOTE_ON) (make_note_on_event 1 0 0 62 0x3F800000)
      \<and> length (incoming_event_queue example_wrapper) < 100"
    by (simp add: make_note_on_event_def example_wrapper_def)
  have p: "ev_type example_parameter_change = FLOAT_PARAMETER_CHANGE
      \<and> 0 \<le> sint (ev_param_id example_parameter_change)
      \<and> sint (ev_param_id example_parameter_change) < int (length (lv2_ports example_wrapper))"
    by (simp add: example_parameter_change_def make_parameter_change_event_def example_wrapper_def)
  have v: "ev_value example_parameter_change = 0x3F000000"
      "nat (sint (ev_param_id example_parameter_change)) = 0"
    by (simp_all add: example_parameter_change_def make_parameter_change_event_def)
  have q: "incoming_event_queue example_wrapper \<noteq> []" by (simp add: example_wrapper_def)
  show ?thesis
    using b k p q v
      C9_bypass_flushes_keyboard_events [of example_wrapper "\<lambda>i out. i" "\<lambda>w i out. (out, w)"
        "[1::nat]" "[0]" "make_note_on_event 1 0 0 62 0x3F800000" "\<lambda>e. ev_type e = NOTE_ON" 100]
      C9_bypass_flushes_keyboard_events [of example_wrapper "\<lambda>i out. i" "\<lambda>w i out. (out, w)"
        "[1::nat]" "[0]" example_parameter_change "\<lambda>e. ev_type e = NOTE_ON" 100]
    by auto
qed

section \<open>Pan law: results\<close>











section \<open>Track: results\<close>











section \<open>Transport: results\<close>

text \<open>
  C3: the scenario of the test \<open>TestTimeline44Time\<close>, at 32768 Hz, tempo 120, 4/4,
  playing. At the start everything is 0; at 1 second (32768 samples) the beats are 2,
  the bar beats 2 and the bar start 0; at 2.5 seconds (81920 samples) the beats are 5,
  the bar beats 1 and the bar start 4.
\<close>

theorem C3_timeline_44:
  "current_beats timeline_44 = 0 \<and> current_bar_beats timeline_44 = 0
   \<and> current_bar_start_beats timeline_44 = 0
   \<and> current_beats (set_time 1000000 32768 timeline_44) = 2
   \<and> current_bar_beats (set_time 1000000 32768 timeline_44) = 2
   \<and> current_bar_start_beats (set_time 1000000 32768 timeline_44) = 0
   \<and> current_beats (set_time 2500000 81920 (set_time 1000000 32768 timeline_44)) = 5
   \<and> current_bar_beats (set_time 2500000 81920 (set_time 1000000 32768 timeline_44)) = 1
   \<and> current_bar_start_beats (set_time 2500000 81920 (set_time 1000000 32768 timeline_44)) = 4"
  by (simp add: timeline_44_def transport_defs Let_def)

lemma set_time_step:
  assumes sr: "0 < tr_samplerate t" and tempo: "0 \<le> tr_tempo t" and bpb: "0 < beats_per_bar t"
    and start: "tr_bar_start_beat_count t \<le> tr_beat_count t"
    and mono: "tr_sample_count t \<le> samples"
  shows "tr_beat_count t \<le> tr_beat_count (set_time timestamp samples t)"
    and "timeline_ok (set_time timestamp samples t)"
proof -
  let ?inc = "of_int (samples - tr_sample_count t) * tr_tempo t / (60 * tr_samplerate t)"
  have inc: "0 \<le> ?inc" using sr tempo mono by simp
  then show "tr_beat_count t \<le> tr_beat_count (set_time timestamp samples t)"
    by (simp add: set_time_def Let_def)
  let ?b = "tr_beat_count (set_time timestamp samples t)"
  have b: "tr_beat_count t \<le> ?b" using inc by (simp add: set_time_def Let_def)
  have bpb': "beats_per_bar (set_time timestamp samples t) = beats_per_bar t"
    by (simp add: set_time_def Let_def beats_per_bar_def)
  show "timeline_ok (set_time timestamp samples t)"
  proof (cases "tr_bar_start_beat_count t + beats_per_bar t \<le> ?b")
    case True
    then have s: "tr_bar_start_beat_count (set_time timestamp samples t) =
        of_int \<lfloor>?b / beats_per_bar t\<rfloor> * beats_per_bar t"
      by (simp add: set_time_def Let_def)
    have c: "tr_current_bar_beat_count (set_time timestamp samples t) =
        ?b - tr_bar_start_beat_count (set_time timestamp samples t)"
      by (simp add: set_time_def Let_def)
    have lo: "of_int \<lfloor>?b / beats_per_bar t\<rfloor> * beats_per_bar t \<le> ?b"
      using bpb by (rule floor_divide_lower)
    have hi: "?b < (of_int \<lfloor>?b / beats_per_bar t\<rfloor> + 1) * beats_per_bar t"
      using bpb by (rule floor_divide_upper)
    then have hi': "?b < of_int \<lfloor>?b / beats_per_bar t\<rfloor> * beats_per_bar t + beats_per_bar t"
      by (simp add: algebra_simps)
    show ?thesis
      unfolding timeline_ok_def current_beats_def current_bar_beats_def
        current_bar_start_beats_def bpb' c s
      using lo hi' by simp
  next
    case False
    then have s: "tr_bar_start_beat_count (set_time timestamp samples t) =
        tr_bar_start_beat_count t"
      by (simp add: set_time_def Let_def)
    have c: "tr_current_bar_beat_count (set_time timestamp samples t) =
        ?b - tr_bar_start_beat_count (set_time timestamp samples t)"
      by (simp add: set_time_def Let_def)
    show ?thesis
      unfolding timeline_ok_def current_beats_def current_bar_beats_def
        current_bar_start_beats_def bpb' c s
      using False b start by simp
  qed
qed


lemma set_time_config:
  "tr_samplerate (set_time timestamp samples t) = tr_samplerate t"
  "tr_tempo (set_time timestamp samples t) = tr_tempo t"
  "beats_per_bar (set_time timestamp samples t) = beats_per_bar t"
  "tr_sample_count (set_time timestamp samples t) = samples"
  by (simp_all add: set_time_def Let_def beats_per_bar_def)

lemma set_times_timeline:
  assumes "0 < tr_samplerate t" and "0 \<le> tr_tempo t" and "0 < beats_per_bar t"
    and "tr_bar_start_beat_count t \<le> tr_beat_count t"
    and "sorted (tr_sample_count t # map snd calls)"
  shows "sorted (map tr_beat_count (t # set_times calls t))
         \<and> (\<forall>t' \<in> set (set_times calls t). timeline_ok t')"
  using assms
proof (induction calls arbitrary: t)
  case Nil
  then show ?case by simp
next
  case (Cons c calls)
  obtain timestamp samples where c: "c = (timestamp, samples)" by (cases c)
  let ?t = "set_time timestamp samples t"
  have mono: "tr_sample_count t \<le> samples" using Cons.prems(5) c by simp
  have step: "tr_beat_count t \<le> tr_beat_count ?t" "timeline_ok ?t"
    using set_time_step [OF Cons.prems(1-4) mono] by simp_all
  have start: "tr_bar_start_beat_count ?t \<le> tr_beat_count ?t"
    using step(2) by (simp add: timeline_ok_def current_beats_def current_bar_start_beats_def)
  have sorted': "sorted (tr_sample_count ?t # map snd calls)"
    using Cons.prems(5) c by (simp add: set_time_config)
  have IH: "sorted (map tr_beat_count (?t # set_times calls ?t))
         \<and> (\<forall>t' \<in> set (set_times calls ?t). timeline_ok t')"
    using Cons.IH [of ?t] Cons.prems(1-3) start sorted' by (simp add: set_time_config)
  then have "\<forall>b \<in> set (map tr_beat_count (?t # set_times calls ?t)). tr_beat_count t \<le> b"
    using step(1) by (auto simp del: set_times.simps)
  then show ?case using IH step(2) c by simp
qed

text \<open>
  C4: from a transport with a positive sample rate, a tempo that is not negative, a
  positive number of beats per bar and a bar start that is not after the current beats,
  every sequence of \<open>set_time\<close> calls whose sample positions do not decrease, starting
  at or after the current position, gives beats that do not decrease from call to call,
  and after every call the bar beats plus the bar start are the beats, the bar beats are
  at least 0 and below the beats per bar, and the bar start is not after the beats.
\<close>

theorem C4_timeline_monotonic:
  assumes "0 < tr_samplerate t" and "0 \<le> tr_tempo t" and "0 < beats_per_bar t"
    and "current_bar_start_beats t \<le> current_beats t"
    and "sorted (tr_sample_count t # map snd calls)"
  shows "sorted (map current_beats (t # set_times calls t))
         \<and> (\<forall>t' \<in> set (set_times calls t).
               current_bar_beats t' + current_bar_start_beats t' = current_beats t'
               \<and> 0 \<le> current_bar_beats t' \<and> current_bar_beats t' < beats_per_bar t'
               \<and> current_bar_start_beats t' \<le> current_beats t')"
proof -
  have "map current_beats = map tr_beat_count" by (simp add: current_beats_def [abs_def])
  then show ?thesis
    using set_times_timeline [of t calls] assms
    by (simp add: timeline_ok_def current_beats_def current_bar_start_beats_def)
qed

theorem C4_timeline_witness:
  "sorted (tr_sample_count playing_transport # map snd example_calls)
   \<and> sorted (map current_beats (playing_transport # set_times example_calls playing_transport))
   \<and> map current_beats (playing_transport # set_times example_calls playing_transport)
       = [0, 1 / 375, 2 / 375, 4, 1501 / 375]
   \<and> map current_bar_start_beats (set_times example_calls playing_transport) = [0, 0, 4, 4]
   \<and> map current_bar_beats (set_times example_calls playing_transport)
       = [1 / 375, 2 / 375, 0, 1 / 375]
   \<and> map beats_per_bar (set_times example_calls playing_transport) = [4, 4, 4, 4]"
proof -
  have h: "0 < tr_samplerate playing_transport" "0 \<le> tr_tempo playing_transport"
    "0 < beats_per_bar playing_transport"
    "current_bar_start_beats playing_transport \<le> current_beats playing_transport"
    "sorted (tr_sample_count playing_transport # map snd example_calls)"
    by (simp_all add: playing_transport_def example_calls_def transport_defs Let_def)
  have v: "map current_beats (playing_transport # set_times example_calls playing_transport)
       = [0, 1 / 375, 2 / 375, 4, 1501 / 375]"
    "map current_bar_start_beats (set_times example_calls playing_transport) = [0, 0, 4, 4]"
    "map current_bar_beats (set_times example_calls playing_transport)
       = [1 / 375, 2 / 375, 0, 1 / 375]"
    "map beats_per_bar (set_times example_calls playing_transport) = [4, 4, 4, 4]"
    by (simp_all add: playing_transport_def example_calls_def transport_defs Let_def)
  show ?thesis
    using h(5) v C4_timeline_monotonic [OF h] by simp
qed

lemma set_times_unchanged:
  "tr_set_playmode t = tr_playmode t \<Longrightarrow>
   \<forall>t' \<in> set (set_times calls t). tr_state_change t' = UNCHANGED"
proof (induction calls arbitrary: t)
  case Nil
  then show ?case by simp
next
  case (Cons c calls)
  obtain timestamp samples where c: "c = (timestamp, samples)" by (cases c)
  have "tr_set_playmode (set_time timestamp samples t) = tr_playmode (set_time timestamp samples t)"
    by (simp add: set_time_def Let_def)
  then have "\<forall>t' \<in> set (set_times calls (set_time timestamp samples t)). tr_state_change t' = UNCHANGED"
    by (rule Cons.IH)
  moreover have "tr_state_change (set_time timestamp samples t) = UNCHANGED"
    using Cons.prems by (simp add: set_time_def Let_def)
  ultimately show ?case using c by simp
qed

text \<open>
  C5: the state change that a \<open>set_time\<close> call reports is starting exactly when the
  transport was stopped before the call and plays after it, stopping exactly when it
  played before and is stopped after, and unchanged exactly when the call did not change
  whether it plays. The value lasts for one block: the next \<open>set_time\<close> call, with no
  other mode asked for in between, reports unchanged, and so does every later call of a
  sequence of \<open>set_time\<close> calls.
\<close>

theorem C5_state_change_latched:
  "(current_state_change (set_time ts s t) = STARTING
      \<longleftrightarrow> \<not> playing t \<and> playing (set_time ts s t))
   \<and> (current_state_change (set_time ts s t) = STOPPING
      \<longleftrightarrow> playing t \<and> \<not> playing (set_time ts s t))
   \<and> (current_state_change (set_time ts s t) = UNCHANGED
      \<longleftrightarrow> playing (set_time ts s t) = playing t)
   \<and> playing (set_time ts s (set_playing_mode mode t)) = (mode \<noteq> STOPPED)
   \<and> current_state_change (set_time ts' s' (set_time ts s t)) = UNCHANGED
   \<and> playing (set_time ts' s' (set_time ts s t)) = playing (set_time ts s t)
   \<and> (\<forall>t' \<in> set (set_times calls (set_time ts s t)). current_state_change t' = UNCHANGED)"
proof -
  have "tr_set_playmode (set_time ts s t) = tr_playmode (set_time ts s t)"
    by (simp add: set_time_def Let_def)
  then have "\<forall>t' \<in> set (set_times calls (set_time ts s t)). tr_state_change t' = UNCHANGED"
    by (rule set_times_unchanged)
  then show ?thesis
    by (simp add: current_state_change_def playing_def set_time_def set_playing_mode_def Let_def)
qed

text \<open>
  The scenario of the test \<open>TestPlayStateChange\<close>: stopped at 0 and at 1 second, then
  playing is asked for, the call at 2 seconds reports starting, and the call at 3 seconds
  reports unchanged while the transport plays on.
\<close>

theorem C5_state_change_witness:
  "\<not> playing stopped_transport
   \<and> current_state_change (set_time 1000000 44000 stopped_transport) = UNCHANGED
   \<and> \<not> playing (set_time 1000000 44000 stopped_transport)
   \<and> current_state_change
       (set_time 2000000 88000
          (set_playing_mode PLAYING (set_time 1000000 44000 stopped_transport))) = STARTING
   \<and> playing
       (set_time 2000000 88000
          (set_playing_mode PLAYING (set_time 1000000 44000 stopped_transport)))
   \<and> current_state_change
       (set_time 3000000 132000
          (set_time 2000000 88000
             (set_playing_mode PLAYING (set_time 1000000 44000 stopped_transport)))) = UNCHANGED
   \<and> playing
       (set_time 3000000 132000
          (set_time 2000000 88000
             (set_playing_mode PLAYING (set_time 1000000 44000 stopped_transport))))"
proof -
  have a: "\<not> playing stopped_transport"
    by (simp add: stopped_transport_def playing_def transport_defs Let_def)
  have b: "playing (set_time 1000000 44000 stopped_transport) = playing stopped_transport"
    by (simp add: stopped_transport_def playing_def transport_defs Let_def)
  have c: "\<not> playing (set_playing_mode PLAYING (set_time 1000000 44000 stopped_transport))"
    using a b by (simp add: playing_def set_playing_mode_def)
  show ?thesis
    using a b c
      C5_state_change_latched [of 1000000 44000 stopped_transport PLAYING 0 0 "[]"]
      C5_state_change_latched [of 2000000 88000
        "set_playing_mode PLAYING (set_time 1000000 44000 stopped_transport)" PLAYING
        3000000 132000 "[]"]
      C5_state_change_latched [of 2000000 88000 "set_time 1000000 44000 stopped_transport" PLAYING
        0 0 "[]"]
    by simp
qed

end
